theory Spec2Isabelle
  imports Complex_Main "HOL-Library.Log_Nat"
begin

section \<open>Numbers and dates\<close>

text \<open>
  A Python float is an IEEE 754 binary64 number. A finite float is modelled by the rational
  it denotes, and \<open>binary64\<close> rounds a rational to the nearest float, ties to the even
  significand: 53 significant bits, and the fixed quantum \<open>2 powi - 1074\<close> below the
  smallest normal number \<open>2 powi - 1022\<close>. A magnitude of \<open>2 ^ 1024\<close> or more, which
  Python turns into \<^verbatim>\<open>inf\<close>, is outside the model; no amount of this application comes
  near it.
\<close>

type_synonym numeric = rat
type_synonym pyfloat = rat

definition round_half_even :: "rat \<Rightarrow> int" where
  "round_half_even y =
     (let f = \<lfloor>y\<rfloor>; r = y - of_int f
      in if r < 1 / 2 then f else if 1 / 2 < r then f + 1 else if even f then f else f + 1)"

text \<open>The exponent of a non-zero rational: the \<open>e\<close> with \<open>2 powi e \<le> \<bar>x\<bar> < 2 powi (e + 1)\<close>.\<close>

definition exponent :: "rat \<Rightarrow> int" where
  "exponent x =
     (let (a, b) = quotient_of \<bar>x\<bar>; d = bitlen a - bitlen b
      in if 2 powi d \<le> \<bar>x\<bar> then d else d - 1)"

definition binary64 :: "rat \<Rightarrow> pyfloat" where
  "binary64 x =
     (if x = 0 then 0
      else let q = 2 powi (max (exponent x) (- 1022) - 52)
           in of_int (round_half_even (x / q)) * q)"

text \<open>Python's \<^verbatim>\<open>+\<close>, \<^verbatim>\<open>-\<close>, \<^verbatim>\<open>*\<close> and \<^verbatim>\<open>/\<close> on floats: the exact result, rounded.\<close>

definition float_add :: "pyfloat \<Rightarrow> pyfloat \<Rightarrow> pyfloat" where
  "float_add a b = binary64 (a + b)"

definition float_sub :: "pyfloat \<Rightarrow> pyfloat \<Rightarrow> pyfloat" where
  "float_sub a b = binary64 (a - b)"

definition float_mul :: "pyfloat \<Rightarrow> pyfloat \<Rightarrow> pyfloat" where
  "float_mul a b = binary64 (a * b)"

definition float_div :: "pyfloat \<Rightarrow> pyfloat \<Rightarrow> pyfloat" where
  "float_div a b = binary64 (a / b)"

text \<open>
  SQLite has no decimal type: a \<^verbatim>\<open>Numeric(14, 2)\<close> or \<^verbatim>\<open>Float\<close> column is stored as a
  \<^verbatim>\<open>REAL\<close>, the float nearest to the value written, and SQLAlchemy hands a
  \<^verbatim>\<open>Numeric(14, 2)\<close> result to Python as \<^verbatim>\<open>Decimal("%.2f" % value)\<close>: the float
  rounded to two fractional digits, ties to even. \<^verbatim>\<open>float(d)\<close> of a \<^verbatim>\<open>Decimal\<close> is the
  float nearest to it.
\<close>

definition real_column :: "rat \<Rightarrow> pyfloat" where
  "real_column v = binary64 v"

definition numeric_result :: "pyfloat \<Rightarrow> numeric" where
  "numeric_result v = of_int (round_half_even (v * 100)) / 100"

definition float_of :: "numeric \<Rightarrow> pyfloat" where
  "float_of d = binary64 d"

record date =
  year :: nat
  month :: nat
  day :: nat

section \<open>The tables of \<^verbatim>\<open>app.py\<close>\<close>

text \<open>
  One record per mapped class; a field is prefixed by its table because several tables
  have columns \<^verbatim>\<open>id\<close> and \<^verbatim>\<open>name\<close>. A nullable column that the
  application does not always fill is an option.
\<close>

record company =
  co_id :: int
  co_name :: string
  co_is_parent :: bool

record subsidiary =
  sub_id :: int
  sub_name :: string
  sub_company_id :: int

record client =
  cl_id :: int
  cl_name :: string
  cl_contact :: "string option"
  cl_email :: "string option"

record contract =
  ct_id :: int
  ct_title :: string
  ct_subsidiary_id :: int
  ct_client_id :: int
  ct_signed_date :: "date option"
  ct_start_date :: "date option"
  ct_end_date :: "date option"
  ct_contract_value :: "numeric option"
  ct_retainer :: "numeric option"
  ct_percent_to_subsidiary :: "pyfloat option"
  ct_status :: string
  ct_notes :: "string option"

record expense =
  exp_id :: int
  exp_contract_id :: int
  exp_amount :: numeric
  exp_description :: "string option"
  exp_date :: date

record revenue =
  rev_id :: int
  rev_contract_id :: int
  rev_amount :: numeric
  rev_date :: date
  rev_description :: "string option"

record equity_award =
  eq_id :: int
  eq_contract_id :: int
  eq_recipient :: string
  eq_percent :: pyfloat
  eq_notes :: "string option"
  eq_date :: date

text \<open>
  The session: every table as the list of its rows in insertion order, which is the order
  in which SQLite returns them to a query without \<^verbatim>\<open>ORDER BY\<close>.
\<close>

record db =
  companies :: "company list"
  subsidiaries :: "subsidiary list"
  clients :: "client list"
  contracts :: "contract list"
  expenses :: "expense list"
  revenues :: "revenue list"
  equity_awards :: "equity_award list"

definition empty_db :: db where
  "empty_db = \<lparr>companies = [], subsidiaries = [], clients = [], contracts = [],
     expenses = [], revenues = [], equity_awards = []\<rparr>"

section \<open>Aggregation\<close>

text \<open>
  \<^verbatim>\<open>func.sum\<close> is \<^verbatim>\<open>NULL\<close> over no row and otherwise adds the stored floats in row
  order, every addition rounded (the compensated summation of recent SQLite versions is
  not modelled). \<^verbatim>\<open>func.coalesce(_, 0)\<close> replaces the \<^verbatim>\<open>NULL\<close>, the query returns
  the value as a \<^verbatim>\<open>Decimal\<close> of two digits, and \<^verbatim>\<open>x or 0\<close> replaces \<^verbatim>\<open>None\<close> and every
  falsy number by 0.
\<close>

definition sqlite_total :: "rat list \<Rightarrow> pyfloat" where
  "sqlite_total xs = foldl (\<lambda>acc x. float_add acc (real_column x)) 0 xs"

definition func_sum :: "rat list \<Rightarrow> pyfloat option" where
  "func_sum xs = (if xs = [] then None else Some (sqlite_total xs))"

definition func_coalesce :: "pyfloat option \<Rightarrow> pyfloat \<Rightarrow> pyfloat" where
  "func_coalesce v d = (case v of None \<Rightarrow> d | Some x \<Rightarrow> x)"

definition scalar :: "pyfloat \<Rightarrow> numeric option" where
  "scalar v = Some (numeric_result v)"

definition or_0 :: "rat option \<Rightarrow> rat" where
  "or_0 v = (case v of None \<Rightarrow> 0 | Some x \<Rightarrow> (if x = 0 then 0 else x))"

record agg =
  agg_revenue :: pyfloat
  agg_expenses :: pyfloat
  agg_profit :: pyfloat

record contract_agg = agg +
  agg_subsidiary_share :: pyfloat

record subsidiary_agg = agg +
  agg_contracts :: int

record company_agg = agg +
  agg_subsidiaries :: int

definition revenue_amounts :: "db \<Rightarrow> int \<Rightarrow> numeric list" where
  "revenue_amounts sess cid =
     map rev_amount (filter (\<lambda>r. rev_contract_id r = cid) (revenues sess))"

definition expense_amounts :: "db \<Rightarrow> int \<Rightarrow> numeric list" where
  "expense_amounts sess cid =
     map exp_amount (filter (\<lambda>e. exp_contract_id e = cid) (expenses sess))"

definition calc_contract_aggregates :: "db \<Rightarrow> contract \<Rightarrow> contract_agg" where
  "calc_contract_aggregates sess c =
     (let total_revenue =
            float_of
              (or_0 (scalar (func_coalesce (func_sum (revenue_amounts sess (ct_id c))) 0)));
          total_expenses =
            float_of
              (or_0 (scalar (func_coalesce (func_sum (expense_amounts sess (ct_id c))) 0)));
          profit = float_sub total_revenue total_expenses;
          subsidiary_share =
            float_div
              (float_mul profit (or_0 (map_option real_column (ct_percent_to_subsidiary c))))
              100
      in \<lparr>agg_revenue = total_revenue, agg_expenses = total_expenses,
          agg_profit = profit, agg_subsidiary_share = subsidiary_share\<rparr>)"

text \<open>The \<^verbatim>\<open>for c in contracts\<close> loop of \<^verbatim>\<open>aggregate_for_subsidiary\<close>.\<close>

fun subsidiary_loop :: "db \<Rightarrow> contract list \<Rightarrow> subsidiary_agg \<Rightarrow> subsidiary_agg" where
  "subsidiary_loop sess [] acc = acc"
| "subsidiary_loop sess (c # cs) acc =
     (let a = calc_contract_aggregates sess c
      in subsidiary_loop sess cs
           (acc\<lparr>agg_revenue := float_add (agg_revenue acc) (agg_revenue a),
                agg_expenses := float_add (agg_expenses acc) (agg_expenses a),
                agg_profit := float_add (agg_profit acc) (agg_profit a)\<rparr>))"

definition contracts_of :: "db \<Rightarrow> int \<Rightarrow> contract list" where
  "contracts_of sess subsidiary_id =
     filter (\<lambda>c. ct_subsidiary_id c = subsidiary_id) (contracts sess)"

definition aggregate_for_subsidiary :: "db \<Rightarrow> int \<Rightarrow> subsidiary_agg" where
  "aggregate_for_subsidiary sess subsidiary_id =
     (let cs = contracts_of sess subsidiary_id
      in subsidiary_loop sess cs
           \<lparr>agg_revenue = 0, agg_expenses = 0, agg_profit = 0,
            agg_contracts = int (length cs)\<rparr>)"

text \<open>The \<^verbatim>\<open>for s in subs\<close> loop of \<^verbatim>\<open>aggregate_for_company\<close>.\<close>

fun company_loop :: "db \<Rightarrow> subsidiary list \<Rightarrow> company_agg \<Rightarrow> company_agg" where
  "company_loop sess [] acc = acc"
| "company_loop sess (s # ss) acc =
     (let a = aggregate_for_subsidiary sess (sub_id s)
      in company_loop sess ss
           (acc\<lparr>agg_revenue := float_add (agg_revenue acc) (agg_revenue a),
                agg_expenses := float_add (agg_expenses acc) (agg_expenses a),
                agg_profit := float_add (agg_profit acc) (agg_profit a)\<rparr>))"

definition subsidiaries_of :: "db \<Rightarrow> int \<Rightarrow> subsidiary list" where
  "subsidiaries_of sess company_id =
     filter (\<lambda>s. sub_company_id s = company_id) (subsidiaries sess)"

definition aggregate_for_company :: "db \<Rightarrow> int \<Rightarrow> company_agg" where
  "aggregate_for_company sess company_id =
     (let subs = subsidiaries_of sess company_id
      in company_loop sess subs
           \<lparr>agg_revenue = 0, agg_expenses = 0, agg_profit = 0,
            agg_subsidiaries = int (length subs)\<rparr>)"

section \<open>Record management\<close>

text \<open>
  A handler returns the session it leaves and the message it shows, or the exception it
  raises. \<^verbatim>\<open>IntegrityError\<close> is what \<^verbatim>\<open>sess.commit()\<close> raises when a
  \<^verbatim>\<open>unique=True\<close> column would hold a value twice; \<^verbatim>\<open>KeyError\<close> is a dictionary
  lookup of an absent key; \<^verbatim>\<open>AttributeError\<close> is an attribute read on the \<^verbatim>\<open>None\<close> of
  a relationship without a target row.
\<close>

datatype error = IntegrityError | KeyError | AttributeError

datatype message = Warning string | Success string

text \<open>
  An \<^verbatim>\<open>Integer\<close> primary key without a value is the largest id of the table plus one,
  and 1 in an empty table. An insertion fails on a name already in the table for the three
  tables with a unique name; the engine is opened without enforcement of foreign keys, so
  the other insertions cannot fail.
\<close>

definition next_id :: "int list \<Rightarrow> int" where
  "next_id ids = (case ids of [] \<Rightarrow> 1 | i # js \<Rightarrow> fold max js i + 1)"

definition add_company :: "db \<Rightarrow> string \<Rightarrow> bool \<Rightarrow> error + db \<times> company" where
  "add_company sess name is_parent =
     (if name \<in> set (map co_name (companies sess)) then Inl IntegrityError
      else let c = \<lparr>co_id = next_id (map co_id (companies sess)), co_name = name,
                     co_is_parent = is_parent\<rparr>
           in Inr (sess\<lparr>companies := companies sess @ [c]\<rparr>, c))"

definition add_subsidiary :: "db \<Rightarrow> string \<Rightarrow> int \<Rightarrow> error + db \<times> subsidiary" where
  "add_subsidiary sess name company_id =
     (if name \<in> set (map sub_name (subsidiaries sess)) then Inl IntegrityError
      else let s = \<lparr>sub_id = next_id (map sub_id (subsidiaries sess)), sub_name = name,
                     sub_company_id = company_id\<rparr>
           in Inr (sess\<lparr>subsidiaries := subsidiaries sess @ [s]\<rparr>, s))"

definition add_client :: "db \<Rightarrow> string \<Rightarrow> string option \<Rightarrow> string option \<Rightarrow> error + db \<times> client" where
  "add_client sess name contact email =
     (if name \<in> set (map cl_name (clients sess)) then Inl IntegrityError
      else let c = \<lparr>cl_id = next_id (map cl_id (clients sess)), cl_name = name,
                     cl_contact = contact, cl_email = email\<rparr>
           in Inr (sess\<lparr>clients := clients sess @ [c]\<rparr>, c))"

definition add_revenue :: "db \<Rightarrow> int \<Rightarrow> numeric \<Rightarrow> date \<Rightarrow> string option \<Rightarrow> db" where
  "add_revenue sess cid amount d description =
     sess\<lparr>revenues := revenues sess @
       [\<lparr>rev_id = next_id (map rev_id (revenues sess)), rev_contract_id = cid,
         rev_amount = amount, rev_date = d, rev_description = description\<rparr>]\<rparr>"

definition add_expense :: "db \<Rightarrow> int \<Rightarrow> numeric \<Rightarrow> date \<Rightarrow> string option \<Rightarrow> db" where
  "add_expense sess cid amount d description =
     sess\<lparr>expenses := expenses sess @
       [\<lparr>exp_id = next_id (map exp_id (expenses sess)), exp_contract_id = cid,
         exp_amount = amount, exp_description = description, exp_date = d\<rparr>]\<rparr>"

definition add_equity_award ::
  "db \<Rightarrow> int \<Rightarrow> string \<Rightarrow> pyfloat \<Rightarrow> string option \<Rightarrow> date \<Rightarrow> db" where
  "add_equity_award sess cid recipient percent notes d =
     sess\<lparr>equity_awards := equity_awards sess @
       [\<lparr>eq_id = next_id (map eq_id (equity_awards sess)), eq_contract_id = cid,
         eq_recipient = recipient, eq_percent = percent, eq_notes = notes, eq_date = d\<rparr>]\<rparr>"

text \<open>
  The handler of the button that creates the default parent and subsidiaries. The parent
  is looked up by the name \<^verbatim>\<open>BBH\<close> and created with the name
  \<^verbatim>\<open>Black Bear Holdings\<close>, as in the source.
\<close>

fun bootstrap_subsidiaries :: "db \<Rightarrow> company \<Rightarrow> string list \<Rightarrow> error + db" where
  "bootstrap_subsidiaries sess parent [] = Inr sess"
| "bootstrap_subsidiaries sess parent (name # names) =
     (case find (\<lambda>s. sub_name s = name) (subsidiaries sess) of
        Some sub \<Rightarrow> bootstrap_subsidiaries sess parent names
      | None \<Rightarrow>
          (case add_subsidiary sess name (co_id parent) of
             Inl e \<Rightarrow> Inl e
           | Inr (sess', sub) \<Rightarrow> bootstrap_subsidiaries sess' parent names))"

definition bootstrap_default_org :: "db \<Rightarrow> error + db \<times> message" where
  "bootstrap_default_org sess =
     (case (case find (\<lambda>c. co_name c = ''BBH'') (companies sess) of
              Some parent \<Rightarrow> Inr (sess, parent)
            | None \<Rightarrow> add_company sess ''Black Bear Holdings'' True) of
        Inl e \<Rightarrow> Inl e
      | Inr (sess1, parent) \<Rightarrow>
          (case bootstrap_subsidiaries sess1 parent [''NexxusGovSec'', ''3SixMedia''] of
             Inl e \<Rightarrow> Inl e
           | Inr sess2 \<Rightarrow> Inr (sess2, Success ''Created BBH, NGS, and 3SM (if missing).'')))"

text \<open>
  A dictionary comprehension over a list of pairs: a later pair overwrites an earlier one
  with the same key.
\<close>

definition py_dict :: "('k \<times> 'v) list \<Rightarrow> ('k \<rightharpoonup> 'v)" where
  "py_dict kvs = map_of (rev kvs)"

definition client_form :: "db \<Rightarrow> string \<Rightarrow> string \<Rightarrow> string \<Rightarrow> error + db \<times> message" where
  "client_form sess cname contact email =
     (if cname = [] then Inr (sess, Warning ''Client name required'')
      else
        (case find (\<lambda>c. cl_name c = cname) (clients sess) of
           Some c \<Rightarrow> Inr (sess, Warning ''Client exists'')
         | None \<Rightarrow>
             (case add_client sess cname (Some contact) (Some email) of
                Inl e \<Rightarrow> Inl e
              | Inr (sess', c) \<Rightarrow> Inr (sess', Success (''Created client: '' @ cname)))))"

definition comp_options :: "db \<Rightarrow> (string \<rightharpoonup> int)" where
  "comp_options sess = py_dict (map (\<lambda>c. (co_name c, co_id c)) (companies sess))"

definition subsidiary_form :: "db \<Rightarrow> string \<Rightarrow> string option \<Rightarrow> error + db \<times> message" where
  "subsidiary_form sess sname parent_choice =
     (case parent_choice of
        None \<Rightarrow> Inr (sess, Warning ''Subsidiary name and parent required'')
      | Some p \<Rightarrow>
          if sname = [] \<or> p = []
          then Inr (sess, Warning ''Subsidiary name and parent required'')
          else
            (case comp_options sess p of
               None \<Rightarrow> Inl KeyError
             | Some pid \<Rightarrow>
                 (case find (\<lambda>s. sub_name s = sname) (subsidiaries sess) of
                    Some s \<Rightarrow> Inr (sess, Warning ''Subsidiary exists'')
                  | None \<Rightarrow>
                      (case add_subsidiary sess sname pid of
                         Inl e \<Rightarrow> Inl e
                       | Inr (sess', s) \<Rightarrow>
                           Inr (sess', Success (''Created subsidiary '' @ sname
                                  @ '' under '' @ p))))))"

section \<open>Strings of numbers and dates\<close>

text \<open>
  \<^verbatim>\<open>str\<close> of an integer in decimal, and \<^verbatim>\<open>date.isoformat()\<close>, which pads the year to
  four digits and the month and the day to two.
\<close>

definition digit :: "nat \<Rightarrow> char" where
  "digit n = ''0123456789'' ! (n mod 10)"

function str_nat :: "nat \<Rightarrow> string" where
  "str_nat n = (if n < 10 then [digit n] else str_nat (n div 10) @ [digit n])"
  by pat_completeness auto
termination
  by (relation "measure id") auto

declare str_nat.simps [simp del]

definition str_int :: "int \<Rightarrow> string" where
  "str_int i = (if i < 0 then ''-'' @ str_nat (nat (- i)) else str_nat (nat i))"

definition zero_pad :: "nat \<Rightarrow> nat \<Rightarrow> string" where
  "zero_pad w n = replicate (w - length (str_nat n)) (CHR ''0'') @ str_nat n"

definition isoformat :: "date \<Rightarrow> string" where
  "isoformat d =
     zero_pad 4 (year d) @ ''-'' @ zero_pad 2 (month d) @ ''-'' @ zero_pad 2 (day d)"

text \<open>
  The many-to-one relationships \<^verbatim>\<open>c.subsidiary\<close> and \<^verbatim>\<open>c.client\<close>: the row with
  the referenced primary key, or \<^verbatim>\<open>None\<close>.
\<close>

definition subsidiary_of :: "db \<Rightarrow> contract \<Rightarrow> subsidiary option" where
  "subsidiary_of sess c = find (\<lambda>s. sub_id s = ct_subsidiary_id c) (subsidiaries sess)"

definition client_of :: "db \<Rightarrow> contract \<Rightarrow> client option" where
  "client_of sess c = find (\<lambda>k. cl_id k = ct_client_id c) (clients sess)"

section \<open>The finance form\<close>

text \<open>
  \<^verbatim>\<open>contract_map\<close> maps the label of every contract to its id. The form offers the
  labels in a select box, so \<^verbatim>\<open>selected\<close> is one of them, or \<^verbatim>\<open>None\<close> when there is
  no contract. The record type and the fields of its branch of the form are one value of
  \<open>kind\<close>.
\<close>

definition contract_label :: "db \<Rightarrow> contract \<Rightarrow> error + string" where
  "contract_label sess c =
     (case subsidiary_of sess c of
        None \<Rightarrow> Inl AttributeError
      | Some s \<Rightarrow> Inr (str_int (ct_id c) @ '' - '' @ ct_title c @ '' ('' @ sub_name s @ '')''))"

fun contract_map_items :: "db \<Rightarrow> contract list \<Rightarrow> error + (string \<times> int) list" where
  "contract_map_items sess [] = Inr []"
| "contract_map_items sess (c # cs) =
     (case contract_label sess c of
        Inl e \<Rightarrow> Inl e
      | Inr l \<Rightarrow>
          (case contract_map_items sess cs of
             Inl e \<Rightarrow> Inl e
           | Inr kvs \<Rightarrow> Inr ((l, ct_id c) # kvs)))"

datatype kind =
    Revenue numeric string date
  | Expense numeric string date
  | EquityAward string pyfloat string date

definition record_entry :: "db \<Rightarrow> int \<Rightarrow> kind \<Rightarrow> db \<times> message" where
  "record_entry sess cid k =
     (case k of
        Revenue amt desc rdate \<Rightarrow>
          (add_revenue sess cid amt rdate (Some desc), Success ''Revenue recorded'')
      | Expense amt desc rdate \<Rightarrow>
          (add_expense sess cid amt rdate (Some desc), Success ''Expense recorded'')
      | EquityAward recipient pct notes edate \<Rightarrow>
          (add_equity_award sess cid recipient pct (Some notes) edate,
           Success ''Equity award recorded''))"

definition finance_form :: "db \<Rightarrow> kind \<Rightarrow> string option \<Rightarrow> error + db \<times> message option" where
  "finance_form sess k selected =
     (case contract_map_items sess (contracts sess) of
        Inl e \<Rightarrow> Inl e
      | Inr kvs \<Rightarrow>
          (case selected of
             None \<Rightarrow> Inr (sess, None)
           | Some l \<Rightarrow>
               if l = [] then Inr (sess, None)
               else
                 (case py_dict kvs l of
                    None \<Rightarrow> Inl KeyError
                  | Some cid \<Rightarrow>
                      (case record_entry sess cid k of (sess', m) \<Rightarrow> Inr (sess', Some m)))))"

section \<open>Export\<close>

text \<open>
  A row is the dictionary the handler appends, as the list of its items in order.
  \<^verbatim>\<open>pd.DataFrame(rows)\<close> takes its columns from the keys of the rows, in the order in
  which they first appear, so a frame of no row has no column. \<^verbatim>\<open>to_csv(index=False)\<close>
  writes the line of the column names and one line per row; a line is kept here as the
  list of its fields, before pandas prints them and joins them with commas.
\<close>

datatype cell = IntCell int | StrCell string | FloatCell pyfloat | NaN

text \<open>The keys of the row dictionary, in the order in which the handler writes them.\<close>

definition export_columns :: "string list" where
  "export_columns =
     [''contract_id'', ''title'', ''subsidiary'', ''client'', ''status'', ''contract_value'',
      ''retainer'', ''signed_date'', ''revenue'', ''expenses'', ''profit'']"

text \<open>
  \<^verbatim>\<open>float(c.contract_value or 0)\<close>: the attribute of a \<^verbatim>\<open>Numeric(14, 2)\<close> column is the
  stored float as a \<^verbatim>\<open>Decimal\<close> of two digits.
\<close>

definition float_or_0 :: "numeric option \<Rightarrow> pyfloat" where
  "float_or_0 v = float_of (or_0 (map_option (\<lambda>x. numeric_result (real_column x)) v))"

definition export_row :: "db \<Rightarrow> contract \<Rightarrow> error + (string \<times> cell) list" where
  "export_row sess c =
     (let a = calc_contract_aggregates sess c
      in case subsidiary_of sess c of
           None \<Rightarrow> Inl AttributeError
         | Some s \<Rightarrow>
             (case client_of sess c of
                None \<Rightarrow> Inl AttributeError
              | Some k \<Rightarrow>
                  Inr [(''contract_id'', IntCell (ct_id c)),
                       (''title'', StrCell (ct_title c)),
                       (''subsidiary'', StrCell (sub_name s)),
                       (''client'', StrCell (cl_name k)),
                       (''status'', StrCell (ct_status c)),
                       (''contract_value'', FloatCell (float_or_0 (ct_contract_value c))),
                       (''retainer'', FloatCell (float_or_0 (ct_retainer c))),
                       (''signed_date'',
                          StrCell (case ct_signed_date c of
                                     Some d \<Rightarrow> isoformat d | None \<Rightarrow> [])),
                       (''revenue'', FloatCell (agg_revenue a)),
                       (''expenses'', FloatCell (agg_expenses a)),
                       (''profit'', FloatCell (agg_profit a))]))"

fun export_rows :: "db \<Rightarrow> contract list \<Rightarrow> error + (string \<times> cell) list list" where
  "export_rows sess [] = Inr []"
| "export_rows sess (c # cs) =
     (case export_row sess c of
        Inl e \<Rightarrow> Inl e
      | Inr r \<Rightarrow>
          (case export_rows sess cs of
             Inl e \<Rightarrow> Inl e
           | Inr rs \<Rightarrow> Inr (r # rs)))"

record data_frame =
  df_columns :: "string list"
  df_values :: "cell list list"

definition first_seen :: "'a list \<Rightarrow> 'a list" where
  "first_seen xs = rev (remdups (rev xs))"

definition DataFrame :: "(string \<times> cell) list list \<Rightarrow> data_frame" where
  "DataFrame rows =
     (let cols = first_seen (concat (map (map fst) rows))
      in \<lparr>df_columns = cols,
          df_values =
            map (\<lambda>r. map (\<lambda>k. case py_dict r k of Some v \<Rightarrow> v | None \<Rightarrow> NaN) cols) rows\<rparr>)"

definition to_csv :: "data_frame \<Rightarrow> cell list list" where
  "to_csv df = map StrCell (df_columns df) # df_values df"

definition export_contracts_csv :: "db \<Rightarrow> error + cell list list" where
  "export_contracts_csv sess =
     (case export_rows sess (contracts sess) of
        Inl e \<Rightarrow> Inl e
      | Inr rows \<Rightarrow> Inr (to_csv (DataFrame rows)))"

section \<open>A small database used to run the model\<close>

definition example_date :: date where
  "example_date = \<lparr>year = 2024, month = 1, day = 15\<rparr>"

definition example_contract :: contract where
  "example_contract =
     \<lparr>ct_id = 1, ct_title = ''Audit'', ct_subsidiary_id = 1, ct_client_id = 1,
      ct_signed_date = Some example_date, ct_start_date = None, ct_end_date = None,
      ct_contract_value = Some 1000, ct_retainer = Some 0,
      ct_percent_to_subsidiary = Some 50, ct_status = ''active'', ct_notes = None\<rparr>"

definition idle_contract :: contract where
  "idle_contract = example_contract\<lparr>ct_id := 2, ct_title := ''Idle'', ct_signed_date := None\<rparr>"

definition example_db :: db where
  "example_db =
     \<lparr>companies = [\<lparr>co_id = 1, co_name = ''Black Bear Holdings'', co_is_parent = True\<rparr>],
      subsidiaries = [\<lparr>sub_id = 1, sub_name = ''NexxusGovSec'', sub_company_id = 1\<rparr>],
      clients = [\<lparr>cl_id = 1, cl_name = ''Acme'', cl_contact = None, cl_email = None\<rparr>],
      contracts = [example_contract, idle_contract],
      expenses =
        [\<lparr>exp_id = 1, exp_contract_id = 1, exp_amount = 200, exp_description = None,
          exp_date = example_date\<rparr>],
      revenues =
        [\<lparr>rev_id = 1, rev_contract_id = 1, rev_amount = 500, rev_date = example_date,
          rev_description = None\<rparr>,
         \<lparr>rev_id = 2, rev_contract_id = 1, rev_amount = 300, rev_date = example_date,
          rev_description = None\<rparr>],
      equity_awards = []\<rparr>"

text \<open>
  The foreign key of \<^verbatim>\<open>subsidiaries.company_id\<close>: every subsidiary row names the id of
  a company row.
\<close>

definition company_fk :: "db \<Rightarrow> bool" where
  "company_fk sess =
     list_all (\<lambda>s. sub_company_id s \<in> set (map co_id (companies sess))) (subsidiaries sess)"

text \<open>The database that the bootstrap handler leaves when it starts from no row.\<close>

definition bootstrapped_db :: db where
  "bootstrapped_db =
     \<lparr>companies = [\<lparr>co_id = 1, co_name = ''Black Bear Holdings'', co_is_parent = True\<rparr>],
      subsidiaries =
        [\<lparr>sub_id = 1, sub_name = ''NexxusGovSec'', sub_company_id = 1\<rparr>,
         \<lparr>sub_id = 2, sub_name = ''3SixMedia'', sub_company_id = 1\<rparr>],
      clients = [], contracts = [], expenses = [], revenues = [], equity_awards = []\<rparr>"

text \<open>
  A contract with one revenue of 0.30 and one expense of 0.10, at 100 percent.
\<close>

definition drift_contract :: contract where
  "drift_contract = example_contract\<lparr>ct_percent_to_subsidiary := Some 100\<rparr>"

definition drift_db :: db where
  "drift_db =
     example_db
       \<lparr>contracts := [drift_contract],
        expenses :=
          [\<lparr>exp_id = 1, exp_contract_id = 1, exp_amount = 1 / 10, exp_description = None,
            exp_date = example_date\<rparr>],
        revenues :=
          [\<lparr>rev_id = 1, rev_contract_id = 1, rev_amount = 3 / 10, rev_date = example_date,
            rev_description = None\<rparr>]\<rparr>"

text \<open>
  Two contracts with revenues of 0.10 and 0.20: under one subsidiary in \<open>cents_db\<close>,
  under two subsidiaries of one company in \<open>split_db\<close>.
\<close>

definition cents_contract_1 :: contract where
  "cents_contract_1 = example_contract\<lparr>ct_id := 1, ct_title := ''First''\<rparr>"

definition cents_contract_2 :: contract where
  "cents_contract_2 = example_contract\<lparr>ct_id := 2, ct_title := ''Second''\<rparr>"

definition cents_db :: db where
  "cents_db =
     example_db
       \<lparr>contracts := [cents_contract_1, cents_contract_2],
        expenses := [],
        revenues :=
          [\<lparr>rev_id = 1, rev_contract_id = 1, rev_amount = 1 / 10, rev_date = example_date,
            rev_description = None\<rparr>,
           \<lparr>rev_id = 2, rev_contract_id = 2, rev_amount = 2 / 10, rev_date = example_date,
            rev_description = None\<rparr>]\<rparr>"

definition split_subsidiary_1 :: subsidiary where
  "split_subsidiary_1 = \<lparr>sub_id = 1, sub_name = ''NexxusGovSec'', sub_company_id = 1\<rparr>"

definition split_subsidiary_2 :: subsidiary where
  "split_subsidiary_2 = \<lparr>sub_id = 2, sub_name = ''3SixMedia'', sub_company_id = 1\<rparr>"

definition split_db :: db where
  "split_db =
     cents_db
       \<lparr>subsidiaries := [split_subsidiary_1, split_subsidiary_2],
        contracts := [cents_contract_1, cents_contract_2\<lparr>ct_subsidiary_id := 2\<rparr>]\<rparr>"

text \<open>
  A database without companies whose one subsidiary names the company 7, with a contract
  and a revenue of 10. SQLite accepts it: the engine does not enforce foreign keys.
\<close>

definition dangling_db :: db where
  "dangling_db =
     empty_db
       \<lparr>subsidiaries := [\<lparr>sub_id = 1, sub_name = ''Orphan'', sub_company_id = 7\<rparr>],
        contracts := [example_contract],
        revenues :=
          [\<lparr>rev_id = 1, rev_contract_id = 1, rev_amount = 10, rev_date = example_date,
            rev_description = None\<rparr>]\<rparr>"

section \<open>Basic facts\<close>

lemma or_0_Some: "or_0 (Some x) = x"
  by (simp add: or_0_def)

lemma find_name_None: "find (\<lambda>x. f x = n) xs = None \<longleftrightarrow> n \<notin> f ` set xs"
  by (auto simp: find_None_iff)

lemma find_name_Some: "n \<in> f ` set xs \<Longrightarrow> \<exists>x. find (\<lambda>x. f x = n) xs = Some x"
  by (cases "find (\<lambda>x. f x = n) xs") (auto simp: find_None_iff)

lemma py_dict_in_set: "py_dict kvs k = Some v \<Longrightarrow> (k, v) \<in> set kvs"
  by (auto simp: py_dict_def dest: map_of_SomeD)

section \<open>Properties of the rounding\<close>


lemma round_half_even_error: "\<bar>of_int (round_half_even y) - y\<bar> \<le> 1 / 2"
proof -
  have "of_int \<lfloor>y\<rfloor> \<le> y" "y < of_int \<lfloor>y\<rfloor> + 1"
    by linarith+
  then show ?thesis
    by (auto simp: round_half_even_def Let_def)
qed

lemma round_half_even_unique:
  assumes "\<bar>y - of_int n\<bar> < 1 / 2"
  shows "round_half_even y = n"
proof -
  have "\<bar>of_int (round_half_even y) - y\<bar> \<le> 1 / 2"
    by (rule round_half_even_error)
  with assms have "\<bar>(of_int (round_half_even y) :: rat) - of_int n\<bar> < 1"
    by linarith
  then have "\<bar>(of_int (round_half_even y - n) :: rat)\<bar> < 1"
    by simp
  then have "\<bar>round_half_even y - n\<bar> < 1"
    by (metis of_int_abs of_int_less_1_iff)
  then show ?thesis
    by linarith
qed

lemma bitlen_ge_1: "0 < a \<Longrightarrow> 1 \<le> bitlen a"
  by (auto simp: bitlen_alt_def)

lemma exponent_le:
  assumes "x \<noteq> 0"
  shows "2 powi exponent x \<le> \<bar>x\<bar>"
proof -
  obtain a b where q: "quotient_of \<bar>x\<bar> = (a, b)"
    by (cases "quotient_of \<bar>x\<bar>")
  then have b: "0 < b" and x: "\<bar>x\<bar> = of_int a / of_int b"
    by (auto simp: quotient_of_denom_pos quotient_of_div)
  have "0 < \<bar>x\<bar>"
    using assms by simp
  with x b have a: "0 < a"
    by (simp add: zero_less_divide_iff)
  let ?d = "bitlen a - bitlen b"
  show ?thesis
  proof (cases "(2::rat) powi ?d \<le> \<bar>x\<bar>")
    case True
    with q show ?thesis
      by (simp add: exponent_def)
  next
    case False
    have la: "1 \<le> bitlen a" and lb: "1 \<le> bitlen b"
      using a b by (simp_all add: bitlen_ge_1)
    have "2 ^ nat (bitlen a - 1) \<le> a" and "b < 2 ^ nat (bitlen b)"
      using bitlen_bounds [OF a] bitlen_bounds [OF b] by simp_all
    then have A: "(2::rat) ^ nat (bitlen a - 1) \<le> of_int a"
      and B: "(of_int b :: rat) \<le> 2 ^ nat (bitlen b)"
      by (metis of_int_le_iff of_int_numeral of_int_power,
          metis less_imp_le of_int_le_iff of_int_numeral of_int_power)
    have "(2::rat) powi (?d - 1) = 2 powi (bitlen a - 1 - bitlen b)"
      by (simp add: algebra_simps)
    also have "\<dots> = 2 powi (bitlen a - 1) / 2 powi (bitlen b)"
      by (rule power_int_diff) simp
    also have "\<dots> = 2 ^ nat (bitlen a - 1) / 2 ^ nat (bitlen b)"
      using la lb by (simp add: power_int_def)
    also have "\<dots> \<le> of_int a / of_int b"
      using A B a b by (intro frac_le) simp_all
    finally have "2 powi (?d - 1) \<le> \<bar>x\<bar>"
      using x by simp
    with False q show ?thesis
      by (simp add: exponent_def)
  qed
qed

lemma exponent_less:
  assumes "x \<noteq> 0"
  shows "\<bar>x\<bar> < 2 powi (exponent x + 1)"
proof -
  obtain a b where q: "quotient_of \<bar>x\<bar> = (a, b)"
    by (cases "quotient_of \<bar>x\<bar>")
  then have b: "0 < b" and x: "\<bar>x\<bar> = of_int a / of_int b"
    by (auto simp: quotient_of_denom_pos quotient_of_div)
  have "0 < \<bar>x\<bar>"
    using assms by simp
  with x b have a: "0 < a"
    by (simp add: zero_less_divide_iff)
  let ?d = "bitlen a - bitlen b"
  show ?thesis
  proof (cases "(2::rat) powi ?d \<le> \<bar>x\<bar>")
    case False
    with q show ?thesis
      by (simp add: exponent_def)
  next
    case True
    have la: "1 \<le> bitlen a" and lb: "1 \<le> bitlen b"
      using a b by (simp_all add: bitlen_ge_1)
    have "a < 2 ^ nat (bitlen a)" and "2 ^ nat (bitlen b - 1) \<le> b"
      using bitlen_bounds [OF a] bitlen_bounds [OF b] by simp_all
    then have A: "(of_int a :: rat) < 2 ^ nat (bitlen a)"
      and B: "(2::rat) ^ nat (bitlen b - 1) \<le> of_int b"
      by (metis of_int_less_iff of_int_numeral of_int_power,
          metis of_int_le_iff of_int_numeral of_int_power)
    have "of_int a / of_int b < (2::rat) ^ nat (bitlen a) / 2 ^ nat (bitlen b - 1)"
      using A B a b by (intro frac_less) simp_all
    also have "\<dots> = 2 powi (bitlen a) / 2 powi (bitlen b - 1)"
      using la lb by (simp add: power_int_def)
    also have "\<dots> = 2 powi (bitlen a - (bitlen b - 1))"
      by (rule power_int_diff [symmetric]) simp
    also have "\<dots> = 2 powi (?d + 1)"
      by (simp add: algebra_simps)
    finally have "\<bar>x\<bar> < 2 powi (?d + 1)"
      using x by simp
    with True q show ?thesis
      by (simp add: exponent_def)
  qed
qed

text \<open>
  The rounding error is at most half a unit in the last place: a relative error of
  \<open>2 powi - 53\<close> in the normal range, an absolute one of \<open>2 powi - 1075\<close> below it.
\<close>

lemma binary64_error: "\<bar>binary64 x - x\<bar> \<le> \<bar>x\<bar> / 2 ^ 53 + 2 powi (- 1075)"
proof (cases "x = 0")
  case True
  then show ?thesis
    by (simp add: binary64_def)
next
  case False
  define k where "k = max (exponent x) (- 1022) - 52"
  define q :: rat where "q = 2 powi k"
  have q: "0 < q"
    by (simp add: q_def)
  have "binary64 x - x = (of_int (round_half_even (x / q)) - x / q) * q"
    using False q by (simp add: binary64_def Let_def q_def k_def algebra_simps)
  then have "\<bar>binary64 x - x\<bar> = \<bar>of_int (round_half_even (x / q)) - x / q\<bar> * q"
    using q by (simp add: abs_mult)
  also have "\<dots> \<le> 1 / 2 * q"
    using q round_half_even_error [of "x / q"] by (intro mult_right_mono) simp_all
  finally have e: "\<bar>binary64 x - x\<bar> \<le> q / 2"
    by simp
  show ?thesis
  proof (cases "- 1022 \<le> exponent x")
    case True
    then have "q / 2 = 2 powi exponent x / 2 ^ 53"
      by (simp add: q_def k_def max_def power_int_diff)
    also have "\<dots> \<le> \<bar>x\<bar> / 2 ^ 53"
      using exponent_le [OF False] by (simp add: divide_right_mono)
    finally have "q / 2 \<le> \<bar>x\<bar> / 2 ^ 53" .
    moreover have "0 < (2::rat) powi (- 1075)"
      by simp
    ultimately show ?thesis
      using e by linarith
  next
    case False
    then have "q / 2 = 2 powi (- 1075)"
      by (simp add: q_def k_def max_def power_int_diff)
    moreover have "0 \<le> \<bar>x\<bar> / 2 ^ 53"
      by simp
    ultimately show ?thesis
      using e by linarith
  qed
qed





section \<open>Properties of the aggregation\<close>

lemma coalesce_sum: "func_coalesce (func_sum xs) 0 = sqlite_total xs"
  by (simp add: func_coalesce_def func_sum_def sqlite_total_def)

lemma or_0_scalar: "or_0 (scalar v) = numeric_result v"
  by (simp add: scalar_def or_0_def)

lemma binary64_0: "binary64 0 = 0"
  by (simp add: binary64_def)

lemma numeric_result_0: "numeric_result 0 = 0"
  by (simp add: numeric_result_def round_half_even_def)

lemma real_column_eq: "real_column = binary64"
  by (simp add: fun_eq_iff real_column_def)

lemma calc_contract_aggregates_eq:
  "calc_contract_aggregates sess c =
     (let revenue = binary64 (numeric_result (sqlite_total (revenue_amounts sess (ct_id c))));
          expenses = binary64 (numeric_result (sqlite_total (expense_amounts sess (ct_id c))));
          profit = binary64 (revenue - expenses)
      in \<lparr>agg_revenue = revenue, agg_expenses = expenses, agg_profit = profit,
          agg_subsidiary_share =
            binary64 (binary64 (profit * or_0 (map_option binary64 (ct_percent_to_subsidiary c)))
                      / 100)\<rparr>)"
  by (simp add: calc_contract_aggregates_def coalesce_sum or_0_scalar float_of_def
      float_sub_def float_mul_def float_div_def real_column_eq Let_def)


lemma drift_aggregates:
  "calc_contract_aggregates drift_db drift_contract =
     \<lparr>agg_revenue = 5404319552844595 / 18014398509481984,
      agg_expenses = 3602879701896397 / 36028797018963968,
      agg_profit = 7205759403792793 / 36028797018963968,
      agg_subsidiary_share = 3602879701896397 / 18014398509481984\<rparr>"
  by code_simp





text \<open>
  C5. A contract without revenue rows and without expense rows, and so any contract
  object whose id no row refers to, has all four aggregates equal to 0; the function is
  total, so no error is raised.
\<close>

theorem calc_contract_aggregates_no_rows:
  assumes "filter (\<lambda>r. rev_contract_id r = ct_id c) (revenues sess) = []"
      and "filter (\<lambda>e. exp_contract_id e = ct_id c) (expenses sess) = []"
  shows "calc_contract_aggregates sess c =
      \<lparr>agg_revenue = 0, agg_expenses = 0, agg_profit = 0, agg_subsidiary_share = 0\<rparr>"
  using assms
  by (simp add: calc_contract_aggregates_eq revenue_amounts_def expense_amounts_def
      sqlite_total_def numeric_result_0 binary64_0 Let_def)

theorem calc_contract_aggregates_no_rows_witness:
  "filter (\<lambda>r. rev_contract_id r = ct_id idle_contract) (revenues example_db) = []
   \<and> filter (\<lambda>e. exp_contract_id e = ct_id idle_contract) (expenses example_db) = []
   \<and> revenues example_db \<noteq> []
   \<and> calc_contract_aggregates example_db idle_contract =
       \<lparr>agg_revenue = 0, agg_expenses = 0, agg_profit = 0, agg_subsidiary_share = 0\<rparr>"
proof -
  have r: "filter (\<lambda>r. rev_contract_id r = ct_id idle_contract) (revenues example_db) = []"
    by (simp add: example_db_def idle_contract_def example_contract_def)
  have e: "filter (\<lambda>e. exp_contract_id e = ct_id idle_contract) (expenses example_db) = []"
    by (simp add: example_db_def idle_contract_def example_contract_def)
  have n: "revenues example_db \<noteq> []"
    by (simp add: example_db_def)
  show ?thesis
    using r e n calc_contract_aggregates_no_rows [OF r e] by simp
qed

section \<open>The profit against the decimal amounts\<close>

lemma two_digits: "numeric_result v = of_int (round_half_even (v * 100)) / 100"
  by (simp add: numeric_result_def)

lemma tiny: "(2::rat) powi (- 1075) \<le> 1 / 2 ^ 53"
proof -
  have "(2::rat) powi (- 1075) \<le> 2 powi (- 53)"
    by (rule power_int_increasing) simp_all
  also have "\<dots> = 1 / 2 ^ 53"
    by (simp add: power_int_minus inverse_eq_divide)
  finally show ?thesis .
qed

lemma binary64_near:
  assumes "\<bar>x\<bar> \<le> b"
  shows "\<bar>binary64 x - x\<bar> \<le> (b + 1) / 2 ^ 53"
proof -
  have "\<bar>binary64 x - x\<bar> \<le> \<bar>x\<bar> / 2 ^ 53 + 2 powi (- 1075)"
    by (rule binary64_error)
  also have "\<dots> \<le> b / 2 ^ 53 + 1 / 2 ^ 53"
    using assms tiny by (intro add_mono divide_right_mono) simp_all
  also have "\<dots> = (b + 1) / 2 ^ 53"
    by (simp add: add_divide_distrib)
  finally show ?thesis .
qed

lemma profit_within_half_cent:
  fixes R E :: int
  assumes R: "\<bar>R\<bar> \<le> 10 ^ 14" and E: "\<bar>E\<bar> \<le> 10 ^ 14"
  shows "numeric_result (binary64 (binary64 (of_int R / 100) - binary64 (of_int E / 100))) =
     of_int (R - E) / 100"
proof -
  define r :: rat where "r = of_int R / 100"
  define e :: rat where "e = of_int E / 100"
  define br where "br = binary64 r"
  define be where "be = binary64 e"
  define p where "p = binary64 (br - be)"
  have "\<bar>(of_int R :: rat)\<bar> \<le> 10 ^ 14" "\<bar>(of_int E :: rat)\<bar> \<le> 10 ^ 14"
    using R E by (metis of_int_abs of_int_le_iff of_int_numeral of_int_power)+
  then have r: "\<bar>r\<bar> \<le> 10 ^ 12" and e: "\<bar>e\<bar> \<le> 10 ^ 12"
    by (simp_all add: r_def e_def)
  have c1: "(10 ^ 12 + 1) / 2 ^ 53 \<le> (1 / 8000 :: rat)"
    and c2: "(2 * 10 ^ 12 + 2 + 1) / 2 ^ 53 \<le> (1 / 4000 :: rat)"
    by simp_all
  have "\<bar>br - r\<bar> \<le> (10 ^ 12 + 1) / 2 ^ 53"
    unfolding br_def by (rule binary64_near [OF r])
  then have dr: "\<bar>br - r\<bar> \<le> 1 / 8000"
    using c1 by (rule order_trans)
  have "\<bar>be - e\<bar> \<le> (10 ^ 12 + 1) / 2 ^ 53"
    unfolding be_def by (rule binary64_near [OF e])
  then have de: "\<bar>be - e\<bar> \<le> 1 / 8000"
    using c1 by (rule order_trans)
  have r': "\<bar>r\<bar> \<le> 1000000000000" and e': "\<bar>e\<bar> \<le> 1000000000000"
    using r e by simp_all
  have "\<bar>br - be\<bar> \<le> \<bar>br - r\<bar> + \<bar>be - e\<bar> + \<bar>r\<bar> + \<bar>e\<bar>"
    by linarith
  then have "\<bar>br - be\<bar> \<le> 2000000000002"
    using r' e' dr de by linarith
  then have "\<bar>br - be\<bar> \<le> 2 * 10 ^ 12 + 2"
    by simp
  then have "\<bar>p - (br - be)\<bar> \<le> (2 * 10 ^ 12 + 2 + 1) / 2 ^ 53"
    unfolding p_def by (rule binary64_near)
  then have dp: "\<bar>p - (br - be)\<bar> \<le> 1 / 4000"
    using c2 by (rule order_trans)
  have "\<bar>p - (r - e)\<bar> \<le> \<bar>p - (br - be)\<bar> + \<bar>br - r\<bar> + \<bar>be - e\<bar>"
    by linarith
  then have "\<bar>p - (r - e)\<bar> < 1 / 200"
    using dr de dp by linarith
  then have "\<bar>p - (r - e)\<bar> * 100 < 1 / 2"
    by simp
  moreover have "p * 100 - (r - e) * 100 = (p - (r - e)) * 100"
    by (simp only: left_diff_distrib)
  then have "\<bar>p * 100 - (r - e) * 100\<bar> = \<bar>p - (r - e)\<bar> * \<bar>100\<bar>"
    by (simp only: abs_mult)
  then have "\<bar>p * 100 - (r - e) * 100\<bar> = \<bar>p - (r - e)\<bar> * 100"
    by simp
  ultimately have "\<bar>p * 100 - (r - e) * 100\<bar> < 1 / 2"
    by (simp only:)
  moreover have "(r - e) * 100 = of_int (R - E)"
    by (simp add: r_def e_def algebra_simps)
  ultimately have "round_half_even (p * 100) = R - E"
    by (intro round_half_even_unique) simp
  then show ?thesis
    by (simp add: two_digits p_def br_def be_def r_def e_def)
qed

text \<open>
  C9, as the code has it. The query returns revenue and expenses rounded to two
  fractional digits, \<open>R / 100\<close> and \<open>E / 100\<close> for integers \<open>R\<close> and \<open>E\<close>, and the code
  turns them into floats: revenue is the float nearest to \<open>R / 100\<close>, expenses the float
  nearest to \<open>E / 100\<close>, and profit the float nearest to their difference. The profit is
  a float, not a decimal of two digits, but for sums up to \<open>10 ^ 12\<close> it is within half a
  cent of the decimal difference: rounded to two digits it is \<open>(R - E) / 100\<close> exactly.
\<close>

theorem contract_profit_near_decimal:
  "(let R = round_half_even (sqlite_total (revenue_amounts sess (ct_id c)) * 100);
        E = round_half_even (sqlite_total (expense_amounts sess (ct_id c)) * 100);
        a = calc_contract_aggregates sess c
    in agg_revenue a = binary64 (of_int R / 100)
       \<and> agg_expenses a = binary64 (of_int E / 100)
       \<and> agg_profit a = binary64 (agg_revenue a - agg_expenses a)
       \<and> (\<bar>R\<bar> \<le> 10 ^ 14 \<and> \<bar>E\<bar> \<le> 10 ^ 14 \<longrightarrow>
            numeric_result (agg_profit a) = of_int (R - E) / 100))"
  using profit_within_half_cent
  by (simp add: calc_contract_aggregates_eq two_digits Let_def)

text \<open>
  With a revenue of 0.30 and an expense of 0.10 the profit is the float
  0.19999999999999998, which is not 0.20; rounded to two digits it is 0.20.
\<close>

theorem contract_profit_drift_counterexample:
  "agg_profit (calc_contract_aggregates drift_db drift_contract) =
     7205759403792793 / 36028797018963968
   \<and> (7205759403792793 / 36028797018963968 :: rat) \<noteq> 30 / 100 - 10 / 100
   \<and> numeric_result (7205759403792793 / 36028797018963968) = 30 / 100 - 10 / 100"
proof -
  have "numeric_result (7205759403792793 / 36028797018963968) = 30 / 100 - 10 / 100"
    by code_simp
  then show ?thesis
    by (simp add: drift_aggregates)
qed

lemma drift_cents:
  "round_half_even (sqlite_total (revenue_amounts drift_db (ct_id drift_contract)) * 100) = 30"
  "round_half_even (sqlite_total (expense_amounts drift_db (ct_id drift_contract)) * 100) = 10"
  by code_simp+

theorem contract_profit_near_decimal_witness:
  "agg_revenue (calc_contract_aggregates drift_db drift_contract) =
     binary64 (of_int 30 / 100)
   \<and> agg_expenses (calc_contract_aggregates drift_db drift_contract) =
     binary64 (of_int 10 / 100)
   \<and> numeric_result (agg_profit (calc_contract_aggregates drift_db drift_contract)) =
     of_int (30 - 10) / 100"
proof -
  have b: "\<bar>30::int\<bar> \<le> 10 ^ 14 \<and> \<bar>10::int\<bar> \<le> 10 ^ 14"
    by simp
  note t = contract_profit_near_decimal [of drift_db drift_contract,
      unfolded Let_def drift_cents]
  from t b show ?thesis
    by blast
qed

section \<open>Properties of the rollups\<close>

lemma subsidiary_loop_folds:
  "subsidiary_loop sess cs acc =
     acc\<lparr>agg_revenue :=
           foldl (\<lambda>a c. float_add a (agg_revenue (calc_contract_aggregates sess c)))
             (agg_revenue acc) cs,
         agg_expenses :=
           foldl (\<lambda>a c. float_add a (agg_expenses (calc_contract_aggregates sess c)))
             (agg_expenses acc) cs,
         agg_profit :=
           foldl (\<lambda>a c. float_add a (agg_profit (calc_contract_aggregates sess c)))
             (agg_profit acc) cs\<rparr>"
  by (induction cs arbitrary: acc) (simp_all add: Let_def)

lemma company_loop_folds:
  "company_loop sess ss acc =
     acc\<lparr>agg_revenue :=
           foldl (\<lambda>a s. float_add a (agg_revenue (aggregate_for_subsidiary sess (sub_id s))))
             (agg_revenue acc) ss,
         agg_expenses :=
           foldl (\<lambda>a s. float_add a (agg_expenses (aggregate_for_subsidiary sess (sub_id s))))
             (agg_expenses acc) ss,
         agg_profit :=
           foldl (\<lambda>a s. float_add a (agg_profit (aggregate_for_subsidiary sess (sub_id s))))
             (agg_profit acc) ss\<rparr>"
  by (induction ss arbitrary: acc) (simp_all add: Let_def)

lemma example_subsidiary_aggregate:
  "aggregate_for_subsidiary example_db 1 =
     \<lparr>agg_revenue = 800, agg_expenses = 200, agg_profit = 600, agg_contracts = 2\<rparr>"
  by code_simp

lemma example_share_sum:
  "(\<Sum>c\<leftarrow>filter (\<lambda>c. ct_subsidiary_id c = 1) (contracts example_db).
      agg_subsidiary_share (calc_contract_aggregates example_db c)) = 300"
  by code_simp

text \<open>
  C3, as the code has it. \<^verbatim>\<open>aggregate_for_subsidiary\<close> returns, for the contracts of the
  subsidiary in table order, the revenue, the expenses and the raw profit of
  \<^verbatim>\<open>calc_contract_aggregates\<close> added from 0.0 one after the other, every addition rounded
  to a float, and the number of the contracts. The profit is not taken from the
  subsidiary shares: in the example database it is 600 where the shares add up to 300.
\<close>

theorem aggregate_for_subsidiary_folds:
  "aggregate_for_subsidiary sess s =
     (let cs = filter (\<lambda>c. ct_subsidiary_id c = s) (contracts sess)
      in \<lparr>agg_revenue =
            foldl (\<lambda>a c. binary64 (a + agg_revenue (calc_contract_aggregates sess c))) 0 cs,
          agg_expenses =
            foldl (\<lambda>a c. binary64 (a + agg_expenses (calc_contract_aggregates sess c))) 0 cs,
          agg_profit =
            foldl (\<lambda>a c. binary64 (a + agg_profit (calc_contract_aggregates sess c))) 0 cs,
          agg_contracts = int (length cs)\<rparr>)
   \<and> agg_profit (aggregate_for_subsidiary example_db 1) = 600
   \<and> (\<Sum>c\<leftarrow>filter (\<lambda>c. ct_subsidiary_id c = 1) (contracts example_db).
         agg_subsidiary_share (calc_contract_aggregates example_db c)) = 300"
proof -
  have "agg_profit (aggregate_for_subsidiary example_db 1) = 600"
    by (simp add: example_subsidiary_aggregate)
  then show ?thesis
    using example_share_sum
    by (simp add: aggregate_for_subsidiary_def contracts_of_def subsidiary_loop_folds
        float_add_def Let_def)
qed

text \<open>
  Two contracts of one subsidiary with revenues of 0.10 and 0.20: the revenue of the
  subsidiary is the float 0.30000000000000004, not the sum of the two contract revenues.
\<close>

theorem aggregate_for_subsidiary_drift_counterexample:
  "contracts_of cents_db 1 = [cents_contract_1, cents_contract_2]
   \<and> agg_revenue (aggregate_for_subsidiary cents_db 1)
     \<noteq> agg_revenue (calc_contract_aggregates cents_db cents_contract_1)
       + agg_revenue (calc_contract_aggregates cents_db cents_contract_2)"
  by code_simp

text \<open>
  C4, as the code has it. \<^verbatim>\<open>aggregate_for_company\<close> returns, for the subsidiaries whose
  \<^verbatim>\<open>company_id\<close> is the company, in table order, the revenue, the expenses and the profit
  of \<^verbatim>\<open>aggregate_for_subsidiary\<close> added from 0.0 one after the other, every addition
  rounded to a float, and the number of the subsidiaries.
\<close>

theorem aggregate_for_company_folds:
  "aggregate_for_company sess co =
     (let subs = filter (\<lambda>s. sub_company_id s = co) (subsidiaries sess)
      in \<lparr>agg_revenue =
            foldl (\<lambda>a s. binary64 (a + agg_revenue (aggregate_for_subsidiary sess (sub_id s))))
              0 subs,
          agg_expenses =
            foldl (\<lambda>a s. binary64 (a + agg_expenses (aggregate_for_subsidiary sess (sub_id s))))
              0 subs,
          agg_profit =
            foldl (\<lambda>a s. binary64 (a + agg_profit (aggregate_for_subsidiary sess (sub_id s))))
              0 subs,
          agg_subsidiaries = int (length subs)\<rparr>)"
  by (simp add: aggregate_for_company_def subsidiaries_of_def company_loop_folds
      float_add_def Let_def)

text \<open>
  Two subsidiaries of one company with revenues of 0.10 and 0.20: the revenue of the
  company is not the sum of the two subsidiary revenues.
\<close>

theorem aggregate_for_company_drift_counterexample:
  "subsidiaries_of split_db 1 = [split_subsidiary_1, split_subsidiary_2]
   \<and> agg_revenue (aggregate_for_company split_db 1)
     \<noteq> agg_revenue (aggregate_for_subsidiary split_db (sub_id split_subsidiary_1))
       + agg_revenue (aggregate_for_subsidiary split_db (sub_id split_subsidiary_2))"
  by code_simp

lemma subsidiaries_of_unknown_company:
  assumes "company_fk sess" and "cid \<notin> co_id ` set (companies sess)"
  shows "subsidiaries_of sess cid = []"
  using assms
  by (auto simp: company_fk_def subsidiaries_of_def list_all_iff filter_empty_conv)

text \<open>
  C10, as the code has it. Both rollups are total functions.
  \<^verbatim>\<open>aggregate_for_subsidiary\<close> on an id that no contract refers to, whether or not a
  subsidiary has it, returns zeros and the count 0. \<^verbatim>\<open>aggregate_for_company\<close> on an id
  that no subsidiary refers to returns zeros and the count 0; an id that no company has is
  such an id when every subsidiary refers to a company.
\<close>

theorem aggregates_of_unmatched_ids:
  "(filter (\<lambda>c. ct_subsidiary_id c = sid) (contracts sess) = [] \<longrightarrow>
      aggregate_for_subsidiary sess sid =
        \<lparr>agg_revenue = 0, agg_expenses = 0, agg_profit = 0, agg_contracts = 0\<rparr>)
   \<and> (filter (\<lambda>s. sub_company_id s = cid) (subsidiaries sess) = [] \<longrightarrow>
      aggregate_for_company sess cid =
        \<lparr>agg_revenue = 0, agg_expenses = 0, agg_profit = 0, agg_subsidiaries = 0\<rparr>)
   \<and> (company_fk sess \<and> cid \<notin> co_id ` set (companies sess) \<longrightarrow>
      aggregate_for_company sess cid =
        \<lparr>agg_revenue = 0, agg_expenses = 0, agg_profit = 0, agg_subsidiaries = 0\<rparr>)"
proof (intro conjI impI)
  assume "filter (\<lambda>c. ct_subsidiary_id c = sid) (contracts sess) = []"
  then show "aggregate_for_subsidiary sess sid =
      \<lparr>agg_revenue = 0, agg_expenses = 0, agg_profit = 0, agg_contracts = 0\<rparr>"
    by (simp add: aggregate_for_subsidiary_def contracts_of_def)
next
  assume "filter (\<lambda>s. sub_company_id s = cid) (subsidiaries sess) = []"
  then show "aggregate_for_company sess cid =
      \<lparr>agg_revenue = 0, agg_expenses = 0, agg_profit = 0, agg_subsidiaries = 0\<rparr>"
    by (simp add: aggregate_for_company_def subsidiaries_of_def)
next
  assume "company_fk sess \<and> cid \<notin> co_id ` set (companies sess)"
  then have "subsidiaries_of sess cid = []"
    by (simp add: subsidiaries_of_unknown_company)
  then show "aggregate_for_company sess cid =
      \<lparr>agg_revenue = 0, agg_expenses = 0, agg_profit = 0, agg_subsidiaries = 0\<rparr>"
    by (simp add: aggregate_for_company_def)
qed

text \<open>
  The company 7 does not exist, a subsidiary row names it all the same, and its rollup is
  not zero.
\<close>

theorem aggregate_for_company_dangling_counterexample:
  "companies dangling_db = []
   \<and> aggregate_for_company dangling_db 7 =
       \<lparr>agg_revenue = 10, agg_expenses = 0, agg_profit = 10, agg_subsidiaries = 1\<rparr>"
  by code_simp

theorem aggregates_of_unmatched_ids_witness:
  "filter (\<lambda>c. ct_subsidiary_id c = 5) (contracts example_db) = []
   \<and> filter (\<lambda>s. sub_company_id s = 7) (subsidiaries example_db) = []
   \<and> company_fk example_db \<and> 7 \<notin> co_id ` set (companies example_db)
   \<and> contracts example_db \<noteq> [] \<and> subsidiaries example_db \<noteq> []
   \<and> aggregate_for_subsidiary example_db 5 =
        \<lparr>agg_revenue = 0, agg_expenses = 0, agg_profit = 0, agg_contracts = 0\<rparr>
   \<and> aggregate_for_company example_db 7 =
        \<lparr>agg_revenue = 0, agg_expenses = 0, agg_profit = 0, agg_subsidiaries = 0\<rparr>"
proof -
  have a: "filter (\<lambda>c. ct_subsidiary_id c = 5) (contracts example_db) = []"
    by (simp add: example_db_def idle_contract_def example_contract_def)
  have s: "filter (\<lambda>s. sub_company_id s = 7) (subsidiaries example_db) = []"
    by (simp add: example_db_def)
  have b: "company_fk example_db \<and> 7 \<notin> co_id ` set (companies example_db)"
    by (simp add: company_fk_def example_db_def)
  have c: "contracts example_db \<noteq> [] \<and> subsidiaries example_db \<noteq> []"
    by (simp add: example_db_def)
  show ?thesis
    using a s b c aggregates_of_unmatched_ids [of 5 example_db 7] by simp
qed

section \<open>The foreign key of the subsidiaries is preserved\<close>

text \<open>
  The handlers that write companies or subsidiaries keep every subsidiary attached to a
  company row: the bootstrap handler uses the parent it found or created, and the
  subsidiary form the id of a company offered by its select box. The wipe leaves the empty
  database.
\<close>

lemma company_fk_iff:
  "company_fk sess \<longleftrightarrow> sub_company_id ` set (subsidiaries sess) \<subseteq> co_id ` set (companies sess)"
  by (auto simp: company_fk_def list_all_iff)

lemma company_fk_empty: "company_fk empty_db"
  by (simp add: company_fk_def empty_db_def)

lemma add_company_fk:
  assumes "company_fk sess" and "add_company sess n p = Inr (sess', c)"
  shows "company_fk sess' \<and> co_id c \<in> co_id ` set (companies sess')"
proof -
  from assms(2) have s: "sess' = sess\<lparr>companies := companies sess @ [c]\<rparr>"
    by (auto simp: add_company_def Let_def split: if_splits)
  have "sub_company_id ` set (subsidiaries sess) \<subseteq> co_id ` set (companies sess)"
    using assms(1) by (simp add: company_fk_iff)
  then have "sub_company_id ` set (subsidiaries sess') \<subseteq> co_id ` set (companies sess')"
    using s by auto
  then show ?thesis
    using s by (simp add: company_fk_iff)
qed

lemma add_subsidiary_fk:
  assumes "company_fk sess" and "cid \<in> co_id ` set (companies sess)"
      and "add_subsidiary sess n cid = Inr (sess', s)"
  shows "company_fk sess' \<and> companies sess' = companies sess"
proof -
  from assms(3) have s: "sess' = sess\<lparr>subsidiaries := subsidiaries sess @ [s]\<rparr>"
      and c: "sub_company_id s = cid"
    by (auto simp: add_subsidiary_def Let_def split: if_splits)
  have "sub_company_id ` set (subsidiaries sess) \<subseteq> co_id ` set (companies sess)"
    using assms(1) by (simp add: company_fk_iff)
  then have "sub_company_id ` set (subsidiaries sess') \<subseteq> co_id ` set (companies sess')"
    using s c assms(2) by auto
  then show ?thesis
    using s by (simp add: company_fk_iff)
qed

lemma bootstrap_subsidiaries_fk:
  assumes "company_fk sess" and "co_id parent \<in> co_id ` set (companies sess)"
      and "bootstrap_subsidiaries sess parent names = Inr sess'"
  shows "company_fk sess' \<and> companies sess' = companies sess"
  using assms
proof (induction names arbitrary: sess)
  case Nil
  then show ?case by simp
next
  case (Cons n names)
  show ?case
  proof (cases "find (\<lambda>s. sub_name s = n) (subsidiaries sess)")
    case (Some s)
    with Cons show ?thesis by simp
  next
    case None
    with Cons.prems(3) obtain s1 sub where
      a: "add_subsidiary sess n (co_id parent) = Inr (s1, sub)"
      and b: "bootstrap_subsidiaries s1 parent names = Inr sess'"
      by (auto split: sum.splits)
    have f: "company_fk s1 \<and> companies s1 = companies sess"
      using add_subsidiary_fk [OF Cons.prems(1) Cons.prems(2) a] .
    then have "company_fk sess' \<and> companies sess' = companies s1"
      using Cons.IH [of s1] Cons.prems(2) b by simp
    with f show ?thesis by simp
  qed
qed

lemma bootstrap_default_org_fk:
  assumes "company_fk sess" and "bootstrap_default_org sess = Inr (sess', m)"
  shows "company_fk sess'"
proof (cases "find (\<lambda>c. co_name c = ''BBH'') (companies sess)")
  case (Some parent)
  then have "parent \<in> set (companies sess)"
    by (auto simp: find_Some_iff)
  then have p: "co_id parent \<in> co_id ` set (companies sess)"
    by simp
  from Some assms(2) have "bootstrap_subsidiaries sess parent [''NexxusGovSec'', ''3SixMedia''] = Inr sess'"
    by (simp add: bootstrap_default_org_def del: bootstrap_subsidiaries.simps
          split: sum.splits)
  then show ?thesis
    using bootstrap_subsidiaries_fk [OF assms(1) p] by blast
next
  case None
  with assms(2) obtain s1 parent where
    a: "add_company sess ''Black Bear Holdings'' True = Inr (s1, parent)"
    and b: "bootstrap_subsidiaries s1 parent [''NexxusGovSec'', ''3SixMedia''] = Inr sess'"
    by (auto simp add: bootstrap_default_org_def simp del: bootstrap_subsidiaries.simps
          split: sum.splits)
  have "company_fk s1 \<and> co_id parent \<in> co_id ` set (companies s1)"
    using add_company_fk [OF assms(1) a] .
  then show ?thesis
    using bootstrap_subsidiaries_fk [OF _ _ b] by blast
qed


lemma comp_options_id:
  assumes "comp_options sess p = Some pid"
  shows "pid \<in> co_id ` set (companies sess)"
  using py_dict_in_set [OF assms [unfolded comp_options_def]] by auto

lemma subsidiary_form_fk:
  assumes "company_fk sess" and "subsidiary_form sess sname parent_choice = Inr (sess', m)"
  shows "company_fk sess'"
proof (cases "sess' = sess")
  case True
  with assms(1) show ?thesis by simp
next
  case False
  with assms(2) obtain p pid s where
    o: "comp_options sess p = Some pid"
    and a: "add_subsidiary sess sname pid = Inr (sess', s)"
    by (auto simp: subsidiary_form_def split: option.splits if_splits sum.splits)
  show ?thesis
    using add_subsidiary_fk [OF assms(1) comp_options_id [OF o] a] by simp
qed

section \<open>Properties of the client and subsidiary forms\<close>


lemma client_form_cases:
  assumes "cname \<noteq> []"
  shows "client_form sess cname contact email =
     (if cname \<in> cl_name ` set (clients sess)
      then Inr (sess, Warning ''Client exists'')
      else Inr (sess\<lparr>clients := clients sess @
                   [\<lparr>cl_id = next_id (map cl_id (clients sess)), cl_name = cname,
                     cl_contact = Some contact, cl_email = Some email\<rparr>]\<rparr>,
                Success (''Created client: '' @ cname)))"
proof (cases "cname \<in> cl_name ` set (clients sess)")
  case True
  then obtain c where "find (\<lambda>c. cl_name c = cname) (clients sess) = Some c"
    using find_name_Some by fastforce
  with True assms show ?thesis
    by (simp add: client_form_def)
next
  case False
  then have "find (\<lambda>c. cl_name c = cname) (clients sess) = None"
    by (simp add: find_name_None)
  with False assms show ?thesis
    by (simp add: client_form_def add_client_def Let_def)
qed

lemma subsidiary_form_cases:
  assumes "sname \<noteq> []" and "p \<noteq> []" and "comp_options sess p = Some pid"
  shows "subsidiary_form sess sname (Some p) =
     (if sname \<in> sub_name ` set (subsidiaries sess)
      then Inr (sess, Warning ''Subsidiary exists'')
      else Inr (sess\<lparr>subsidiaries := subsidiaries sess @
                   [\<lparr>sub_id = next_id (map sub_id (subsidiaries sess)), sub_name = sname,
                     sub_company_id = pid\<rparr>]\<rparr>,
                Success (''Created subsidiary '' @ sname @ '' under '' @ p)))"
proof (cases "sname \<in> sub_name ` set (subsidiaries sess)")
  case True
  then obtain s where "find (\<lambda>s. sub_name s = sname) (subsidiaries sess) = Some s"
    using find_name_Some by fastforce
  with True assms show ?thesis
    by (simp add: subsidiary_form_def)
next
  case False
  then have "find (\<lambda>s. sub_name s = sname) (subsidiaries sess) = None"
    by (simp add: find_name_None)
  with False assms show ?thesis
    by (simp add: subsidiary_form_def add_subsidiary_def Let_def)
qed

text \<open>
  C6, as the code has it. With a non-empty name, the client form shows
  \<^verbatim>\<open>Client exists\<close> and leaves the session as it is when a client has exactly that name,
  and otherwise appends the new client. With a non-empty name and a parent chosen among
  the options, the subsidiary form does the same with \<^verbatim>\<open>Subsidiary exists\<close>. Names
  are compared as strings, so the match is exact and case-sensitive.
\<close>

theorem create_rejects_duplicate_names:
  "(cname \<noteq> [] \<longrightarrow>
      client_form sess cname contact email =
        (if cname \<in> cl_name ` set (clients sess)
         then Inr (sess, Warning ''Client exists'')
         else Inr (sess\<lparr>clients := clients sess @
                      [\<lparr>cl_id = next_id (map cl_id (clients sess)), cl_name = cname,
                        cl_contact = Some contact, cl_email = Some email\<rparr>]\<rparr>,
                   Success (''Created client: '' @ cname))))
   \<and> (sname \<noteq> [] \<and> p \<noteq> [] \<and> comp_options sess p = Some pid \<longrightarrow>
      subsidiary_form sess sname (Some p) =
        (if sname \<in> sub_name ` set (subsidiaries sess)
         then Inr (sess, Warning ''Subsidiary exists'')
         else Inr (sess\<lparr>subsidiaries := subsidiaries sess @
                      [\<lparr>sub_id = next_id (map sub_id (subsidiaries sess)), sub_name = sname,
                        sub_company_id = pid\<rparr>]\<rparr>,
                   Success (''Created subsidiary '' @ sname @ '' under '' @ p))))"
  using client_form_cases subsidiary_form_cases by blast

lemma required_fields:
  "client_form sess [] contact email = Inr (sess, Warning ''Client name required'')"
  "subsidiary_form sess [] parent_choice =
     Inr (sess, Warning ''Subsidiary name and parent required'')"
  "subsidiary_form sess sname None =
     Inr (sess, Warning ''Subsidiary name and parent required'')"
  by (simp_all add: client_form_def subsidiary_form_def split: option.splits)

text \<open>
  The empty name is the name of no client of the empty database, and the client form
  does not insert it: it shows \<^verbatim>\<open>Client name required\<close>.
\<close>

theorem create_empty_name_counterexample:
  "clients empty_db = []
   \<and> client_form empty_db [] ''Ann'' ''ann@example.org'' =
       Inr (empty_db, Warning ''Client name required'')"
  by (simp add: client_form_def empty_db_def)

theorem create_rejects_duplicate_names_witness:
  "client_form example_db ''Acme'' ''Ann'' ''ann@example.org'' =
     Inr (example_db, Warning ''Client exists'')
   \<and> client_form example_db ''acme'' ''Ann'' ''ann@example.org'' =
       Inr (example_db\<lparr>clients := clients example_db @
              [\<lparr>cl_id = 2, cl_name = ''acme'', cl_contact = Some ''Ann'',
                cl_email = Some ''ann@example.org''\<rparr>]\<rparr>,
            Success ''Created client: acme'')
   \<and> subsidiary_form example_db ''NexxusGovSec'' (Some ''Black Bear Holdings'') =
       Inr (example_db, Warning ''Subsidiary exists'')
   \<and> subsidiary_form example_db ''3SixMedia'' (Some ''Black Bear Holdings'') =
       Inr (example_db\<lparr>subsidiaries := subsidiaries example_db @
              [\<lparr>sub_id = 2, sub_name = ''3SixMedia'', sub_company_id = 1\<rparr>]\<rparr>,
            Success ''Created subsidiary 3SixMedia under Black Bear Holdings'')"
proof -
  have o: "comp_options example_db ''Black Bear Holdings'' = Some 1"
    by (simp add: comp_options_def py_dict_def example_db_def)
  have n: "next_id (map cl_id (clients example_db)) = 2"
          "next_id (map sub_id (subsidiaries example_db)) = 2"
    by (simp_all add: next_id_def example_db_def)
  have c: "cl_name ` set (clients example_db) = {''Acme''}"
          "sub_name ` set (subsidiaries example_db) = {''NexxusGovSec''}"
    by (simp_all add: example_db_def)
  show ?thesis
    using create_rejects_duplicate_names
            [of "''Acme''" example_db "''Ann''" "''ann@example.org''"
                "''NexxusGovSec''" "''Black Bear Holdings''" 1]
          create_rejects_duplicate_names
            [of "''acme''" example_db "''Ann''" "''ann@example.org''"
                "''3SixMedia''" "''Black Bear Holdings''" 1]
          o n c
    by simp
qed

section \<open>Properties of the finance form\<close>

lemma contract_label_None:
  "subsidiary_of sess c = None \<Longrightarrow> contract_label sess c = Inl AttributeError"
  by (simp add: contract_label_def)

lemma contract_label_Some:
  "subsidiary_of sess c \<noteq> None \<Longrightarrow> \<exists>l. contract_label sess c = Inr l"
  by (auto simp: contract_label_def)

lemma contract_map_items_fails:
  assumes "\<not> list_all (\<lambda>c. subsidiary_of sess c \<noteq> None) cs"
  shows "contract_map_items sess cs = Inl AttributeError"
  using assms
proof (induction cs)
  case Nil
  then show ?case by simp
next
  case (Cons c cs)
  show ?case
  proof (cases "subsidiary_of sess c")
    case None
    then show ?thesis
      by (simp add: contract_label_None)
  next
    case (Some s)
    then obtain l where "contract_label sess c = Inr l"
      using contract_label_Some [of sess c] by auto
    moreover have "contract_map_items sess cs = Inl AttributeError"
      using Cons Some by simp
    ultimately show ?thesis
      by simp
  qed
qed

lemma find_append:
  "find P (xs @ ys) = (case find P xs of None \<Rightarrow> find P ys | Some x \<Rightarrow> Some x)"
  by (induction xs) auto

lemma contract_map_items_lookup:
  assumes "list_all (\<lambda>c. subsidiary_of sess c \<noteq> None) cs"
  shows "\<exists>kvs. contract_map_items sess cs = Inr kvs
     \<and> (\<forall>l. py_dict kvs l =
           map_option ct_id (find (\<lambda>c. contract_label sess c = Inr l) (rev cs)))"
  using assms
proof (induction cs)
  case Nil
  then show ?case
    by (simp add: py_dict_def)
next
  case (Cons c cs)
  then obtain kvs where k: "contract_map_items sess cs = Inr kvs"
    and m: "\<And>l. py_dict kvs l =
           map_option ct_id (find (\<lambda>c. contract_label sess c = Inr l) (rev cs))"
    by auto
  obtain l0 where l0: "contract_label sess c = Inr l0"
    using Cons.prems contract_label_Some [of sess c] by auto
  have "py_dict ((l0, ct_id c) # kvs) l =
      map_option ct_id (find (\<lambda>c. contract_label sess c = Inr l) (rev (c # cs)))" for l
    using m [of l] l0
    by (auto simp: py_dict_def map_add_def find_append split: option.splits)
  then show ?case
    using k l0 by simp
qed

lemma record_entry_rows:
  "record_entry sess cid (Revenue amt desc d) =
     (sess\<lparr>revenues := revenues sess @
        [\<lparr>rev_id = next_id (map rev_id (revenues sess)), rev_contract_id = cid,
          rev_amount = amt, rev_date = d, rev_description = Some desc\<rparr>]\<rparr>,
      Success ''Revenue recorded'')"
  "record_entry sess cid (Expense amt desc d) =
     (sess\<lparr>expenses := expenses sess @
        [\<lparr>exp_id = next_id (map exp_id (expenses sess)), exp_contract_id = cid,
          exp_amount = amt, exp_description = Some desc, exp_date = d\<rparr>]\<rparr>,
      Success ''Expense recorded'')"
  "record_entry sess cid (EquityAward recipient pct notes d) =
     (sess\<lparr>equity_awards := equity_awards sess @
        [\<lparr>eq_id = next_id (map eq_id (equity_awards sess)), eq_contract_id = cid,
          eq_recipient = recipient, eq_percent = pct, eq_notes = Some notes,
          eq_date = d\<rparr>]\<rparr>,
      Success ''Equity award recorded'')"
  by (simp_all add: record_entry_def add_revenue_def add_expense_def add_equity_award_def)

text \<open>
  C7, as the code has it. The finance form has no error for a contract that does not
  exist: the contract id is \<^verbatim>\<open>contract_map[selected]\<close>, and the select box offers the
  labels of the existing contracts. A result \<open>Inl\<close> is an exception before any
  \<^verbatim>\<open>sess.add\<close>, so the database is as before. When the subsidiary of every contract
  resolves, the form does nothing without a selection, raises \<^verbatim>\<open>KeyError\<close> for a label
  that no contract has, and otherwise records under the id of the last contract with the
  selected label; when one does not resolve, building the labels raises
  \<^verbatim>\<open>AttributeError\<close>. Recording appends one row with the given contract id to the table
  of the chosen kind and changes nothing else.
\<close>

theorem finance_form_records_selected:
  "(list_all (\<lambda>c. subsidiary_of sess c \<noteq> None) (contracts sess) \<longrightarrow>
      finance_form sess k selected =
        (case selected of
           None \<Rightarrow> Inr (sess, None)
         | Some l \<Rightarrow>
             if l = [] then Inr (sess, None)
             else
               (case find (\<lambda>c. contract_label sess c = Inr l) (rev (contracts sess)) of
                  None \<Rightarrow> Inl KeyError
                | Some c \<Rightarrow> Inr (map_prod id Some (record_entry sess (ct_id c) k)))))
   \<and> (\<not> list_all (\<lambda>c. subsidiary_of sess c \<noteq> None) (contracts sess) \<longrightarrow>
      finance_form sess k selected = Inl AttributeError)
   \<and> record_entry sess cid (Revenue amt desc d) =
       (sess\<lparr>revenues := revenues sess @
          [\<lparr>rev_id = next_id (map rev_id (revenues sess)), rev_contract_id = cid,
            rev_amount = amt, rev_date = d, rev_description = Some desc\<rparr>]\<rparr>,
        Success ''Revenue recorded'')
   \<and> record_entry sess cid (Expense amt desc d) =
       (sess\<lparr>expenses := expenses sess @
          [\<lparr>exp_id = next_id (map exp_id (expenses sess)), exp_contract_id = cid,
            exp_amount = amt, exp_description = Some desc, exp_date = d\<rparr>]\<rparr>,
        Success ''Expense recorded'')
   \<and> record_entry sess cid (EquityAward recipient pct notes d) =
       (sess\<lparr>equity_awards := equity_awards sess @
          [\<lparr>eq_id = next_id (map eq_id (equity_awards sess)), eq_contract_id = cid,
            eq_recipient = recipient, eq_percent = pct, eq_notes = Some notes,
            eq_date = d\<rparr>]\<rparr>,
        Success ''Equity award recorded'')"
proof (intro conjI impI)
  assume "list_all (\<lambda>c. subsidiary_of sess c \<noteq> None) (contracts sess)"
  then obtain kvs where k: "contract_map_items sess (contracts sess) = Inr kvs"
    and m: "\<And>l. py_dict kvs l =
           map_option ct_id (find (\<lambda>c. contract_label sess c = Inr l) (rev (contracts sess)))"
    using contract_map_items_lookup [of sess "contracts sess"] by auto
  show "finance_form sess k selected =
        (case selected of
           None \<Rightarrow> Inr (sess, None)
         | Some l \<Rightarrow>
             if l = [] then Inr (sess, None)
             else
               (case find (\<lambda>c. contract_label sess c = Inr l) (rev (contracts sess)) of
                  None \<Rightarrow> Inl KeyError
                | Some c \<Rightarrow> Inr (map_prod id Some (record_entry sess (ct_id c) k))))"
    by (auto simp: finance_form_def k m split: option.splits prod.splits)
next
  assume "\<not> list_all (\<lambda>c. subsidiary_of sess c \<noteq> None) (contracts sess)"
  then show "finance_form sess k selected = Inl AttributeError"
    by (simp add: finance_form_def contract_map_items_fails)
qed (rule record_entry_rows)+

text \<open>
  The recording step given the id 999, which no contract has, appends a revenue row with
  that id and reports success; and the form given a label that no contract has raises
  \<^verbatim>\<open>KeyError\<close>, which is not a report that the contract was not found.
\<close>

theorem record_entry_unchecked_counterexample:
  "contracts empty_db = []
   \<and> record_entry empty_db 999 (Revenue 100 ''retainer'' example_date) =
       (empty_db\<lparr>revenues :=
          [\<lparr>rev_id = 1, rev_contract_id = 999, rev_amount = 100, rev_date = example_date,
            rev_description = Some ''retainer''\<rparr>]\<rparr>,
        Success ''Revenue recorded'')
   \<and> finance_form example_db (Revenue 100 ''retainer'' example_date)
       (Some ''9 - Ghost (NexxusGovSec)'') = Inl KeyError"
proof -
  have "finance_form example_db (Revenue 100 ''retainer'' example_date)
       (Some ''9 - Ghost (NexxusGovSec)'') = Inl KeyError"
    by code_simp
  then show ?thesis
    by (simp add: record_entry_rows next_id_def empty_db_def)
qed

lemma example_resolves:
  "list_all (\<lambda>c. subsidiary_of example_db c \<noteq> None) (contracts example_db)"
  by code_simp

lemma example_selected:
  "find (\<lambda>c. contract_label example_db c = Inr ''2 - Idle (NexxusGovSec)'')
     (rev (contracts example_db)) = Some idle_contract"
  by code_simp

theorem finance_form_records_selected_witness:
  "list_all (\<lambda>c. subsidiary_of example_db c \<noteq> None) (contracts example_db)
   \<and> finance_form example_db (Expense 40 ''travel'' example_date)
       (Some ''2 - Idle (NexxusGovSec)'') =
       Inr (example_db\<lparr>expenses := expenses example_db @
              [\<lparr>exp_id = 2, exp_contract_id = 2, exp_amount = 40,
                exp_description = Some ''travel'', exp_date = example_date\<rparr>]\<rparr>,
            Some (Success ''Expense recorded''))"
proof -
  have n: "next_id (map exp_id (expenses example_db)) = 2" "ct_id idle_contract = 2"
    by (simp_all add: next_id_def example_db_def idle_contract_def)
  show ?thesis
    using example_resolves
      finance_form_records_selected [of example_db "Expense 40 ''travel'' example_date"
        "Some ''2 - Idle (NexxusGovSec)''", THEN conjunct1]
    by (simp add: example_selected record_entry_rows n)
qed

section \<open>Properties of the bootstrap handler\<close>

text \<open>
  C2. Run from the empty database, the bootstrap handler creates the company
  \<^verbatim>\<open>Black Bear Holdings\<close> and the two subsidiaries. Run again on the result, it finds no
  company named \<^verbatim>\<open>BBH\<close>, inserts \<^verbatim>\<open>Black Bear Holdings\<close> a second time and raises
  \<^verbatim>\<open>IntegrityError\<close>: the second call is not a no-op.
\<close>

theorem bootstrap_default_org_twice:
  "bootstrap_default_org empty_db =
     Inr (bootstrapped_db, Success ''Created BBH, NGS, and 3SM (if missing).'')
   \<and> bootstrap_default_org bootstrapped_db = Inl IntegrityError"
  by (simp add: bootstrap_default_org_def add_company_def add_subsidiary_def next_id_def
      empty_db_def bootstrapped_db_def Let_def)

text \<open>
  The same happens from every database without a company named \<^verbatim>\<open>BBH\<close>: when the
  first call succeeds, the second one raises.
\<close>

lemma bootstrap_default_org_again:
  assumes "find (\<lambda>c. co_name c = ''BBH'') (companies sess) = None"
      and "bootstrap_default_org sess = Inr (sess', m)"
  shows "bootstrap_default_org sess' = Inl IntegrityError"
proof -
  from assms obtain s1 parent where
    a: "add_company sess ''Black Bear Holdings'' True = Inr (s1, parent)"
    and b: "bootstrap_subsidiaries s1 parent [''NexxusGovSec'', ''3SixMedia''] = Inr sess'"
    by (auto simp add: bootstrap_default_org_def simp del: bootstrap_subsidiaries.simps
          split: sum.splits)
  have c: "bootstrap_subsidiaries s p ns = Inr s' \<Longrightarrow> companies s' = companies s" for s s' p ns
    by (induction ns arbitrary: s)
       (auto simp: add_subsidiary_def Let_def split: option.splits sum.splits if_splits)
  from a have n: "co_name ` set (companies s1) = insert ''Black Bear Holdings'' (co_name ` set (companies sess))"
    by (auto simp: add_company_def Let_def split: if_splits)
  have "''BBH'' \<notin> co_name ` set (companies sess)"
    using assms(1) by (auto simp: find_None_iff)
  with n have "''BBH'' \<notin> co_name ` set (companies sess')"
    using c [OF b] by simp
  then have f: "find (\<lambda>c. co_name c = ''BBH'') (companies sess') = None"
    by (simp add: find_name_None)
  have "''Black Bear Holdings'' \<in> co_name ` set (companies sess')"
    using n c [OF b] by simp
  then have "add_company sess' ''Black Bear Holdings'' True = Inl IntegrityError"
    by (simp add: add_company_def)
  with f show ?thesis
    by (simp add: bootstrap_default_org_def)
qed

text \<open>
  On the path where the lookup finds a company named \<^verbatim>\<open>BBH\<close>, the handler is
  idempotent: a second call returns the database of the first one, without an error.
\<close>

lemma bootstrap_subsidiaries_names:
  assumes "bootstrap_subsidiaries sess parent names = Inr sess'"
  shows "companies sess' = companies sess
     \<and> sub_name ` set (subsidiaries sess) \<subseteq> sub_name ` set (subsidiaries sess')
     \<and> set names \<subseteq> sub_name ` set (subsidiaries sess')"
  using assms
proof (induction names arbitrary: sess)
  case Nil
  then show ?case by simp
next
  case (Cons n names)
  show ?case
  proof (cases "find (\<lambda>s. sub_name s = n) (subsidiaries sess)")
    case (Some s)
    then have "n \<in> sub_name ` set (subsidiaries sess)"
      using find_name_None [of sub_name n "subsidiaries sess"] by simp
    moreover have "bootstrap_subsidiaries sess parent names = Inr sess'"
      using Cons.prems Some by simp
    ultimately show ?thesis
      using Cons.IH [of sess] by auto
  next
    case None
    with Cons.prems obtain s1 sub where
      a: "add_subsidiary sess n (co_id parent) = Inr (s1, sub)"
      and b: "bootstrap_subsidiaries s1 parent names = Inr sess'"
      by (auto split: sum.splits)
    from a have s1: "s1 = sess\<lparr>subsidiaries := subsidiaries sess @ [sub]\<rparr>" "sub_name sub = n"
      by (auto simp: add_subsidiary_def Let_def split: if_splits)
    have "companies sess' = companies s1
       \<and> sub_name ` set (subsidiaries s1) \<subseteq> sub_name ` set (subsidiaries sess')
       \<and> set names \<subseteq> sub_name ` set (subsidiaries sess')"
      using Cons.IH [OF b] .
    with s1 show ?thesis by auto
  qed
qed

lemma bootstrap_subsidiaries_present:
  assumes "set names \<subseteq> sub_name ` set (subsidiaries sess)"
  shows "bootstrap_subsidiaries sess parent names = Inr sess"
  using assms
proof (induction names)
  case Nil
  then show ?case by simp
next
  case (Cons n names)
  then obtain s where "find (\<lambda>s. sub_name s = n) (subsidiaries sess) = Some s"
    using find_name_Some [of n sub_name "subsidiaries sess"] by auto
  with Cons show ?case by simp
qed

lemma bootstrap_default_org_with_BBH:
  assumes "find (\<lambda>c. co_name c = ''BBH'') (companies sess) = Some parent"
      and "bootstrap_default_org sess = Inr (sess', m)"
  shows "bootstrap_default_org sess' = Inr (sess', m)"
proof -
  from assms have b: "bootstrap_subsidiaries sess parent [''NexxusGovSec'', ''3SixMedia''] = Inr sess'"
    and m: "m = Success ''Created BBH, NGS, and 3SM (if missing).''"
    by (auto simp add: bootstrap_default_org_def simp del: bootstrap_subsidiaries.simps
          split: sum.splits)
  have n: "companies sess' = companies sess"
    "set [''NexxusGovSec'', ''3SixMedia''] \<subseteq> sub_name ` set (subsidiaries sess')"
    using bootstrap_subsidiaries_names [OF b] by blast+
  have "bootstrap_subsidiaries sess' parent [''NexxusGovSec'', ''3SixMedia''] = Inr sess'"
    using bootstrap_subsidiaries_present [OF n(2)] .
  then show ?thesis
    using assms(1) n(1) m
    by (simp add: bootstrap_default_org_def del: bootstrap_subsidiaries.simps)
qed

section \<open>Properties of the export\<close>

text \<open>
  C8. With no contract the exported text is one line without a field, not the line of
  the eleven column names: the frame built from no row has no column.
\<close>

theorem export_contracts_csv_no_contracts:
  "export_contracts_csv empty_db = Inr [[]] \<and> [[]] \<noteq> [map StrCell export_columns]"
  by (simp add: export_contracts_csv_def empty_db_def to_csv_def DataFrame_def first_seen_def
      export_columns_def)

text \<open>
  With at least one contract, and when the relationships of every contract resolve, the
  first line holds the eleven column names in the order of the dictionary and one line
  follows per contract, in the order of the same fields.
\<close>

lemma distinct_export_columns: "distinct export_columns"
  by (simp add: export_columns_def)

lemma export_row_keys: "export_row sess c = Inr r \<Longrightarrow> map fst r = export_columns"
  by (auto simp: export_row_def export_columns_def Let_def split: option.splits)

lemma export_rows_keys:
  "export_rows sess cs = Inr rs \<Longrightarrow>
     length rs = length cs \<and> (\<forall>r \<in> set rs. map fst r = export_columns)"
  by (induction cs arbitrary: rs) (auto split: sum.splits dest: export_row_keys)

lemma remdups_absorb: "set ys \<subseteq> set zs \<Longrightarrow> remdups (ys @ zs) = remdups zs"
  by (induction ys) auto

lemma first_seen_absorb:
  assumes "distinct ks" and "set xs \<subseteq> set ks"
  shows "first_seen (ks @ xs) = ks"
proof -
  have "remdups (rev xs @ rev ks) = remdups (rev ks)"
    using assms(2) by (simp add: remdups_absorb)
  also have "\<dots> = rev ks"
    using assms(1) by (simp add: distinct_remdups_id)
  finally show ?thesis
    by (simp add: first_seen_def)
qed

lemma py_dict_distinct:
  assumes "distinct (map fst r)"
  shows "map (\<lambda>k. case py_dict r k of Some v \<Rightarrow> v | None \<Rightarrow> d) (map fst r) = map snd r"
proof -
  have "py_dict r = map_of r"
    using assms by (simp add: py_dict_def map_of_inject_set distinct_map)
  moreover have "\<forall>(k, v) \<in> set r. map_of r k = Some v"
    using assms by auto
  ultimately show ?thesis
    by (auto simp: map_idI split: prod.splits)
qed

lemma DataFrame_same_keys:
  assumes "rows \<noteq> []" and "distinct ks" and "\<forall>r \<in> set rows. map fst r = ks"
  shows "DataFrame rows = \<lparr>df_columns = ks, df_values = map (map snd) rows\<rparr>"
proof -
  obtain r rs where rows: "rows = r # rs"
    using assms(1) by (cases rows) auto
  have "set (concat (map (map fst) rs)) \<subseteq> set ks"
    using assms(3) rows by auto
  then have cols: "first_seen (concat (map (map fst) rows)) = ks"
    using assms(2) assms(3) rows by (simp add: first_seen_absorb)
  have "map (\<lambda>k. case py_dict x k of Some v \<Rightarrow> v | None \<Rightarrow> NaN) ks = map snd x"
    if "x \<in> set rows" for x
    using that assms(2) assms(3) py_dict_distinct [of x NaN] by auto
  then show ?thesis
    by (simp add: DataFrame_def cols Let_def)
qed

lemma export_contracts_csv_header:
  assumes "contracts sess \<noteq> []" and "export_contracts_csv sess = Inr ls"
  shows "hd ls = map StrCell export_columns \<and> length (tl ls) = length (contracts sess)"
proof -
  from assms(2) obtain rows where
    r: "export_rows sess (contracts sess) = Inr rows" and l: "ls = to_csv (DataFrame rows)"
    by (auto simp: export_contracts_csv_def split: sum.splits)
  have k: "length rows = length (contracts sess)" "\<forall>r \<in> set rows. map fst r = export_columns"
    using export_rows_keys [OF r] by simp_all
  then have "rows \<noteq> []"
    using assms(1) by auto
  then have "DataFrame rows = \<lparr>df_columns = export_columns, df_values = map (map snd) rows\<rparr>"
    using DataFrame_same_keys distinct_export_columns k(2) by blast
  then show ?thesis
    using l k(1) by (simp add: to_csv_def)
qed

lemma export_rows_total:
  assumes "\<forall>c \<in> set cs. subsidiary_of sess c \<noteq> None \<and> client_of sess c \<noteq> None"
  shows "\<exists>rs. export_rows sess cs = Inr rs"
  using assms
proof (induction cs)
  case Nil
  then show ?case by simp
next
  case (Cons c cs)
  then obtain s k rs where
    "subsidiary_of sess c = Some s" "client_of sess c = Some k" "export_rows sess cs = Inr rs"
    by auto
  then show ?case
    by (simp add: export_row_def Let_def)
qed

lemma export_row_cells:
  assumes "export_row sess c = Inr r"
  shows "\<exists>s k. subsidiary_of sess c = Some s \<and> client_of sess c = Some k
     \<and> map snd r =
         [IntCell (ct_id c), StrCell (ct_title c), StrCell (sub_name s), StrCell (cl_name k),
          StrCell (ct_status c), FloatCell (float_or_0 (ct_contract_value c)),
          FloatCell (float_or_0 (ct_retainer c)),
          StrCell (case ct_signed_date c of Some d \<Rightarrow> isoformat d | None \<Rightarrow> []),
          FloatCell (agg_revenue (calc_contract_aggregates sess c)),
          FloatCell (agg_expenses (calc_contract_aggregates sess c)),
          FloatCell (agg_profit (calc_contract_aggregates sess c))]"
  using assms
  by (auto simp: export_row_def Let_def split: option.splits)

lemma isoformat_example: "isoformat example_date = ''2024-01-15''"
  by (simp add: isoformat_def zero_pad_def example_date_def str_nat.simps digit_def)

lemma export_example:
  "export_contracts_csv example_db =
     Inr [map StrCell export_columns,
          [IntCell 1, StrCell ''Audit'', StrCell ''NexxusGovSec'', StrCell ''Acme'',
           StrCell ''active'', FloatCell 1000, FloatCell 0, StrCell ''2024-01-15'',
           FloatCell 800, FloatCell 200, FloatCell 600],
          [IntCell 2, StrCell ''Idle'', StrCell ''NexxusGovSec'', StrCell ''Acme'',
           StrCell ''active'', FloatCell 1000, FloatCell 0, StrCell [],
           FloatCell 0, FloatCell 0, FloatCell 0]]"
  by code_simp


end
